theory Spec2Isabelle
  imports Complex_Main
begin

section \<open>Numbers\<close>

text \<open>
  The engine computes with IEEE doubles: Python floats for the inputs and the bending
  moment, numpy scalars for everything derived from a scanned depth. Finite doubles are
  idealised as exact reals, which is the reading of the specification ("positive real").
  What numpy does on a zero divisor is kept: the quotient is an infinity or not-a-number
  and nothing is raised, so these three values are part of the number type.
\<close>

datatype np_float = Fin real | PInf | NInf | NaN

text \<open>\<open>x < a\<close> for a numpy scalar \<open>x\<close> and a finite \<open>a\<close>; not-a-number compares false.\<close>

fun np_lt :: "np_float \<Rightarrow> real \<Rightarrow> bool" where
  "np_lt (Fin x) a = (x < a)"
| "np_lt NInf a = True"
| "np_lt PInf a = False"
| "np_lt NaN a = False"


text \<open>\<open>a / x\<close> for a finite \<open>a\<close> and a numpy scalar \<open>x\<close>.\<close>

fun np_truediv :: "real \<Rightarrow> np_float \<Rightarrow> np_float" where
  "np_truediv a (Fin b) =
     (if b = 0 then (if 0 < a then PInf else if a < 0 then NInf else NaN)
      else Fin (a / b))"
| "np_truediv a PInf = Fin 0"
| "np_truediv a NInf = Fin 0"
| "np_truediv a NaN = NaN"

text \<open>Rounding to the nearest integer, ties to the even neighbour.\<close>

definition rint :: "real \<Rightarrow> int" where
  "rint x =
     (let f = \<lfloor>x\<rfloor>; r = x - of_int f
      in if r < 1 / 2 then f else if 1 / 2 < r then f + 1
         else if even f then f else f + 1)"

text \<open>\<open>round(x, ndigits)\<close> on a finite value, and on a numpy scalar.\<close>

definition round_py :: "real \<Rightarrow> nat \<Rightarrow> real" where
  "round_py x ndigits = of_int (rint (x * 10 ^ ndigits)) / 10 ^ ndigits"

fun np_round :: "np_float \<Rightarrow> nat \<Rightarrow> np_float" where
  "np_round (Fin x) ndigits = Fin (round_py x ndigits)"
| "np_round PInf ndigits = PInf"
| "np_round NInf ndigits = NInf"
| "np_round NaN ndigits = NaN"

text \<open>\<open>np.arange(start, stop, step)\<close>: \<open>\<lceil>(stop - start) / step\<rceil>\<close> values \<open>start + i * step\<close>.\<close>

definition np_arange :: "real \<Rightarrow> real \<Rightarrow> real \<Rightarrow> real list" where
  "np_arange start stop step =
     map (\<lambda>i. start + real i * step) [0 ..< nat \<lceil>(stop - start) / step\<rceil>]"

section \<open>Material properties database\<close>

record material_props =
  allowable_stress :: real
  cost_per_m3 :: real

definition MATERIALS :: "string \<rightharpoonup> material_props" where
  "MATERIALS =
     [''Concrete'' \<mapsto> \<lparr>allowable_stress = 5000000, cost_per_m3 = 5000\<rparr>,
      ''Steel'' \<mapsto> \<lparr>allowable_stress = 250000000, cost_per_m3 = 60000\<rparr>]"

section \<open>Structural calculations\<close>

definition calculate_bending_moment :: "real \<Rightarrow> real \<Rightarrow> real" where
  "calculate_bending_moment load_per_m span' = (load_per_m * span'\<^sup>2) / 8"

definition calculate_section_modulus :: "real \<Rightarrow> real \<Rightarrow> real" where
  "calculate_section_modulus width d = (width * d\<^sup>2) / 6"

definition calculate_stress :: "real \<Rightarrow> real \<Rightarrow> np_float" where
  "calculate_stress moment section_modulus = np_truediv moment (Fin section_modulus)"

section \<open>Generative design engine\<close>

datatype error = KeyError

record design =
  depth :: real
  stress :: np_float
  cost :: real
  safety_factor :: np_float

text \<open>
  The solution built in the body of the \<open>if\<close> of \<open>optimize_beam\<close>, for the scanned depth
  \<open>d\<close> whose stress is \<open>sigma\<close>.
\<close>

definition solution :: "real \<Rightarrow> real \<Rightarrow> real \<Rightarrow> real \<Rightarrow> real \<Rightarrow> np_float \<Rightarrow> design" where
  "solution span' width allowable cpm d sigma =
     (let volume = width * d * span';
          c = volume * cpm;
          sf = np_truediv allowable sigma
      in \<lparr>depth = round_py d 3, stress = np_round sigma 2,
          cost = round_py c 2, safety_factor = np_round sf 2\<rparr>)"

text \<open>
  The \<open>for\<close> loop of \<open>optimize_beam\<close> over the remaining depths: \<open>best_solution\<close> stays
  \<open>None\<close> until the first depth that passes the test, where the loop breaks.
\<close>

fun scan :: "real \<Rightarrow> real \<Rightarrow> real \<Rightarrow> real \<Rightarrow> real \<Rightarrow> real list \<Rightarrow> design option" where
  "scan span' width moment allowable cpm [] = None"
| "scan span' width moment allowable cpm (d # ds) =
     (let Z = calculate_section_modulus width d;
          sigma = calculate_stress moment Z
      in if np_lt sigma allowable
         then Some (solution span' width allowable cpm d sigma)
         else scan span' width moment allowable cpm ds)"

text \<open>
  \<open>optimize_beam\<close>: the lookup of an unknown material raises \<open>KeyError\<close>; nothing else
  is checked. The default \<open>width = 0.3\<close> is the caller's to pass.
\<close>

definition optimize_beam :: "real \<Rightarrow> real \<Rightarrow> string \<Rightarrow> real \<Rightarrow> error + design option" where
  "optimize_beam span' load_per_m material width =
     (case MATERIALS material of
        None \<Rightarrow> Inl KeyError
      | Some props \<Rightarrow>
          (let moment = calculate_bending_moment load_per_m span'
           in Inr (scan span' width moment (allowable_stress props) (cost_per_m3 props)
                     (np_arange 0.2 1.0 0.01))))"

section \<open>Sensor simulation\<close>

text \<open>The draw of \<open>np.random.uniform(-0.2, 0.2)\<close> is the argument \<open>variation\<close>.\<close>

definition simulate_sensor_load :: "real \<Rightarrow> real \<Rightarrow> real" where
  "simulate_sensor_load variation expected_load =
     round_py (expected_load * (1 + variation)) 2"

section \<open>Recalibration engine\<close>

text \<open>What \<open>print\<close> writes: one list of items for each call.\<close>

datatype item = Str string | Num real | Des "design option"

text \<open>
  The result is the console output up to the return or the exception, and the returned
  pair or the exception.
\<close>

definition recalibrate_design ::
  "real \<Rightarrow> real \<Rightarrow> real \<Rightarrow> string \<Rightarrow> real
     \<Rightarrow> item list list \<times> (error + design option \<times> design option)" where
  "recalibrate_design variation span' expected_load material width =
     (let out1 = [[Str (CHR 0x0A # ''--- Initial Design ---'')]]
      in case optimize_beam span' expected_load material width of
           Inl e \<Rightarrow> (out1, Inl e)
         | Inr initial_design \<Rightarrow>
             (let out2 = out1 @ [[Des initial_design]];
                  actual_load = simulate_sensor_load variation expected_load;
                  out3 = out2 @ [[Str (CHR 0x0A # ''Sensor detected load:''), Num actual_load,
                                  Str ''N/m''],
                                 [Str (CHR 0x0A # ''--- Recalibrated Design ---'')]]
              in case optimize_beam span' actual_load material width of
                   Inl e \<Rightarrow> (out3, Inl e)
                 | Inr updated_design \<Rightarrow>
                     (out3 @ [[Des updated_design]], Inr (initial_design, updated_design))))"

section \<open>Vocabulary of the properties\<close>

text \<open>
  The test \<open>stress < allowable_stress\<close> of the loop body at the depth \<open>d\<close>, and the
  solution the loop body builds there.
\<close>

definition passes :: "real \<Rightarrow> real \<Rightarrow> real \<Rightarrow> real \<Rightarrow> bool" where
  "passes width moment allowable d =
     np_lt (calculate_stress moment (calculate_section_modulus width d)) allowable"

definition solution_at :: "real \<Rightarrow> real \<Rightarrow> real \<Rightarrow> real \<Rightarrow> real \<Rightarrow> real \<Rightarrow> design" where
  "solution_at span' width moment allowable cpm d =
     solution span' width allowable cpm d
       (calculate_stress moment (calculate_section_modulus width d))"

section \<open>Rounding, the scanned depths and the catalogue\<close>

lemma arange_len: "nat \<lceil>((1.0::real) - 0.2) / 0.01\<rceil> = 80"
  by simp

lemma depths_eq: "np_arange 0.2 1.0 0.01 = map (\<lambda>i. (20 + real i) / 100) [0 ..< 80]"
  unfolding np_arange_def by (simp add: field_simps)

lemma rint_of_int: "rint (of_int k) = k"
  by (simp add: rint_def)

lemma rint_bounds: "\<lfloor>x\<rfloor> \<le> rint x \<and> rint x \<le> \<lfloor>x\<rfloor> + 1"
  by (simp add: rint_def Let_def)

lemma rint_mono: "x \<le> y \<Longrightarrow> rint x \<le> rint y"
proof -
  assume xy: "x \<le> y"
  have fl: "\<lfloor>x\<rfloor> \<le> \<lfloor>y\<rfloor>" using xy by (rule floor_mono)
  show ?thesis
  proof (cases "\<lfloor>x\<rfloor> = \<lfloor>y\<rfloor>")
    case True
    then have "x - of_int \<lfloor>x\<rfloor> \<le> y - of_int \<lfloor>y\<rfloor>" using xy by simp
    with True show ?thesis by (auto simp: rint_def Let_def)
  next
    case False
    with fl have "\<lfloor>x\<rfloor> + 1 \<le> \<lfloor>y\<rfloor>" by simp
    with rint_bounds [of x] rint_bounds [of y] show ?thesis by linarith
  qed
qed


lemma round_py_mono: "x \<le> y \<Longrightarrow> round_py x n \<le> round_py y n"
  unfolding round_py_def
  by (intro divide_right_mono of_int_le_iff[THEN iffD2] rint_mono mult_right_mono) simp_all

lemma round_py_of_int: "round_py (of_int k / 10 ^ n) n = of_int k / 10 ^ n"
  by (simp add: round_py_def rint_of_int)


lemma round_py_ge_1: "1 \<le> x \<Longrightarrow> 1 \<le> round_py x n"
  using round_py_mono [of 1 x n] round_py_of_int [of "10 ^ n" n] by simp

section \<open>The scan\<close>

lemma scan_None_iff:
  "scan s w m a c ds = None \<longleftrightarrow> (\<forall>d\<in>set ds. \<not> passes w m a d)"
  by (induction ds) (auto simp: passes_def Let_def)

lemma scan_Some:
  "scan s w m a c ds = Some r \<Longrightarrow>
     \<exists>pre d post. ds = pre @ d # post \<and> (\<forall>x\<in>set pre. \<not> passes w m a x) \<and>
       passes w m a d \<and> r = solution_at s w m a c d"
proof (induction ds)
  case Nil
  then show ?case by simp
next
  case (Cons x xs)
  show ?case
  proof (cases "passes w m a x")
    case True
    with Cons.prems have "r = solution_at s w m a c x"
      by (simp add: passes_def solution_at_def Let_def)
    with True have "x # xs = [] @ x # xs \<and> (\<forall>y\<in>set []. \<not> passes w m a y) \<and>
       passes w m a x \<and> r = solution_at s w m a c x" by simp
    then show ?thesis by blast
  next
    case False
    with Cons.prems have "scan s w m a c xs = Some r"
      by (simp add: passes_def Let_def)
    from Cons.IH [OF this] obtain pre d post where
      h: "xs = pre @ d # post" "\<forall>y\<in>set pre. \<not> passes w m a y"
         "passes w m a d" "r = solution_at s w m a c d" by blast
    with False have "x # xs = (x # pre) @ d # post \<and> (\<forall>y\<in>set (x # pre). \<not> passes w m a y) \<and>
       passes w m a d \<and> r = solution_at s w m a c d" by simp
    then show ?thesis by blast
  qed
qed

lemma scan_Some_least:
  assumes "sorted_wrt (<) ds" and "scan s w m a c ds = Some r"
  shows "\<exists>d\<in>set ds. passes w m a d \<and> r = solution_at s w m a c d \<and>
           (\<forall>d'\<in>set ds. passes w m a d' \<longrightarrow> d \<le> d')"
proof -
  from scan_Some [OF assms(2)] obtain pre d post where
    h: "ds = pre @ d # post" "\<forall>y\<in>set pre. \<not> passes w m a y"
       "passes w m a d" "r = solution_at s w m a c d" by blast
  from assms(1) h(1) have "\<forall>y\<in>set post. d < y"
    by (simp add: sorted_wrt_append)
  with h have "\<forall>d'\<in>set ds. passes w m a d' \<longrightarrow> d \<le> d'" by auto
  with h show ?thesis by auto
qed

lemma depths_sorted: "sorted_wrt (<) (np_arange 0.2 1.0 0.01)"
proof -
  have "sorted_wrt (\<lambda>i j. (20 + real i) / 100 < (20 + real j) / 100) [0 ..< 80]"
    by (rule sorted_wrt_mono_rel [OF _ sorted_wrt_upt]) simp
  then show ?thesis by (simp only: depths_eq sorted_wrt_map)
qed

lemma depths_bounds:
  "d \<in> set (np_arange 0.2 1.0 0.01) \<Longrightarrow> 0.2 \<le> d \<and> d \<le> 0.99"
  unfolding depths_eq by auto

lemma depths_Cons:
  "np_arange 0.2 1.0 0.01 = 0.2 # map (\<lambda>i. (20 + real i) / 100) [1 ..< 80]"
  unfolding depths_eq using upt_conv_Cons [of 0 80] by simp


lemma section_modulus_pos:
  "0 < width \<Longrightarrow> 0.2 \<le> d \<Longrightarrow> 0 < calculate_section_modulus width d"
  by (simp add: calculate_section_modulus_def)

lemma stress_Fin:
  "Z \<noteq> 0 \<Longrightarrow> calculate_stress moment Z = Fin (moment / Z)"
  by (simp add: calculate_stress_def)

lemma optimize_beam_scan:
  "MATERIALS material = Some props \<Longrightarrow>
   optimize_beam span' load_per_m material width =
     Inr (scan span' width (calculate_bending_moment load_per_m span')
            (allowable_stress props) (cost_per_m3 props) (np_arange 0.2 1.0 0.01))"
  by (simp add: optimize_beam_def)

lemma depth_solution_at:
  "depth (solution_at s w m a c d) = round_py d 3"
  by (simp add: solution_at_def solution_def)

lemma passes_pos:
  "0 < width \<Longrightarrow> 0.2 \<le> d \<Longrightarrow>
   passes width m a d \<longleftrightarrow> m / calculate_section_modulus width d < a"
  using section_modulus_pos [of width d] by (simp add: passes_def stress_Fin)

lemma passes_antimono:
  assumes "0 < width" "0.2 \<le> d" "m1 \<le> m2" "passes width m2 a d"
  shows "passes width m1 a d"
proof -
  have Z: "0 < calculate_section_modulus width d"
    using assms(1,2) by (rule section_modulus_pos)
  then have "m1 / calculate_section_modulus width d \<le> m2 / calculate_section_modulus width d"
    using assms(3) by (simp add: divide_right_mono)
  with assms show ?thesis by (simp add: passes_pos)
qed

lemma moment_mono:
  "w1 \<le> w2 \<Longrightarrow> calculate_bending_moment w1 s \<le> calculate_bending_moment w2 s"
  by (simp add: calculate_bending_moment_def mult_right_mono)

lemma scan_first:
  "passes w m a d \<Longrightarrow> scan s w m a c (d # ds) = Some (solution_at s w m a c d)"
  by (simp add: passes_def solution_at_def Let_def)

lemma optimize_beam_first:
  assumes "MATERIALS material = Some props"
    and "passes width (calculate_bending_moment load_per_m span') (allowable_stress props) 0.2"
  shows "optimize_beam span' load_per_m material width =
           Inr (Some (solution_at span' width (calculate_bending_moment load_per_m span')
                        (allowable_stress props) (cost_per_m3 props) 0.2))"
  unfolding optimize_beam_scan [OF assms(1)] depths_Cons
  using assms(2) by (simp only: scan_first)

lemma Concrete: "MATERIALS ''Concrete'' = Some \<lparr>allowable_stress = 5000000, cost_per_m3 = 5000\<rparr>"
  by (simp add: MATERIALS_def)

lemma run_light:
  "optimize_beam 1 8 ''Concrete'' 0.3 =
     Inr (Some \<lparr>depth = 0.2, stress = Fin 500, cost = 300, safety_factor = Fin 10000\<rparr>)"
proof -
  have p: "passes 0.3 (calculate_bending_moment 8 1) 5000000 0.2"
    by (simp add: passes_def calculate_stress_def calculate_section_modulus_def
        calculate_bending_moment_def power2_eq_square)
  show ?thesis
    using optimize_beam_first [OF Concrete, of "0.3" 8 1] p
    by (simp add: solution_at_def solution_def calculate_stress_def
        calculate_section_modulus_def calculate_bending_moment_def power2_eq_square
        round_py_def rint_def Let_def)
qed

section \<open>The stress constraint\<close>



section \<open>The safety factor of a loaded beam\<close>

lemma one_le_ratio: "0 < (s::real) \<Longrightarrow> s < a \<Longrightarrow> 1 \<le> a / s"
  by (simp add: pos_le_divide_eq)

text \<open>
  C10. For a positive span, a positive load, a positive width and a material of the
  catalogue, the safety factor of a returned solution is a finite number that is at
  least 1: the unrounded ratio of the allowable stress to the stress exceeds 1, and
  rounding to two decimals does not take it below 1.
\<close>

theorem optimize_beam_safety_factor_ge_1:
  assumes "0 < span'" and "0 < load_per_m" and "0 < width"
    and "MATERIALS material = Some props"
    and "optimize_beam span' load_per_m material width = Inr (Some r)"
  shows "\<exists>sf. safety_factor r = Fin sf \<and> 1 \<le> sf"
proof -
  let ?m = "calculate_bending_moment load_per_m span'"
  have "scan span' width ?m (allowable_stress props) (cost_per_m3 props)
          (np_arange 0.2 1.0 0.01) = Some r"
    using assms(5) by (simp add: optimize_beam_scan [OF assms(4)])
  from scan_Some [OF this] obtain pre d post where
    h: "np_arange 0.2 1.0 0.01 = pre @ d # post"
       "passes width ?m (allowable_stress props) d"
       "r = solution_at span' width ?m (allowable_stress props) (cost_per_m3 props) d"
    by blast
  let ?Z = "calculate_section_modulus width d"
  from h(1) have "d \<in> set (np_arange 0.2 1.0 0.01)" by simp
  then have d: "0.2 \<le> d" using depths_bounds by blast
  have Z: "0 < ?Z" using assms(3) d by (rule section_modulus_pos)
  have m: "0 < ?m" using assms(1,2) by (simp add: calculate_bending_moment_def)
  have pos: "0 < ?m / ?Z" using Z m by simp
  have lt: "?m / ?Z < allowable_stress props"
    using h(2) assms(3) d by (simp add: passes_pos)
  have ratio: "1 \<le> allowable_stress props / (?m / ?Z)"
    by (rule one_le_ratio [OF pos lt])
  have "safety_factor r = Fin (round_py (allowable_stress props / (?m / ?Z)) 2)"
    using h(3) Z m by (simp add: solution_at_def solution_def stress_Fin)
  with round_py_ge_1 [OF ratio] show ?thesis by blast
qed

theorem optimize_beam_safety_factor_ge_1_witness:
  "0 < (1::real) \<and> 0 < (8::real) \<and> 0 < (0.3::real) \<and>
   MATERIALS ''Concrete'' = Some \<lparr>allowable_stress = 5000000, cost_per_m3 = 5000\<rparr> \<and>
   optimize_beam 1 8 ''Concrete'' 0.3 =
     Inr (Some \<lparr>depth = 0.2, stress = Fin 500, cost = 300, safety_factor = Fin 10000\<rparr>) \<and>
   (\<exists>sf. safety_factor \<lparr>depth = 0.2, stress = Fin 500, cost = 300,
                         safety_factor = Fin 10000\<rparr> = Fin sf \<and> 1 \<le> sf)"
  using optimize_beam_safety_factor_ge_1 [of 1 8 "0.3" "''Concrete''", OF _ _ _ Concrete run_light]
  by (simp add: Concrete run_light)

section \<open>The unloaded beam\<close>



section \<open>The divisor of the stress computation\<close>



section \<open>No feasible depth\<close>

text \<open>
  A load of at least 8 GN/m on a span of 1 m fails the test at every scanned depth of a
  concrete beam 0.3 m wide.
\<close>

lemma heavy_fails:
  assumes "d \<in> set (np_arange 0.2 1.0 0.01)" and "8000000000 \<le> w"
  shows "\<not> passes 0.3 (calculate_bending_moment w 1) 5000000 d"
proof -
  from depths_bounds [OF assms(1)] have d: "0.2 \<le> d" "d \<le> 0.99" by simp_all
  then have "d * d \<le> 1 * 1" by (intro mult_mono) simp_all
  then have Z: "calculate_section_modulus 0.3 d \<le> 1 / 20"
    by (simp add: calculate_section_modulus_def power2_eq_square)
  have Zp: "0 < calculate_section_modulus 0.3 d"
    using d by (simp add: section_modulus_pos)
  have m: "1000000000 \<le> calculate_bending_moment w 1"
    using assms(2) by (simp add: calculate_bending_moment_def)
  have "5000000 * calculate_section_modulus 0.3 d \<le> calculate_bending_moment w 1"
    using Z m by linarith
  then have "5000000 \<le> calculate_bending_moment w 1 / calculate_section_modulus 0.3 d"
    using Zp by (simp add: pos_le_divide_eq)
  then show ?thesis using d by (simp add: passes_pos)
qed

lemma run_heavy:
  "8000000000 \<le> w \<Longrightarrow> optimize_beam 1 w ''Concrete'' 0.3 = Inr None"
  using heavy_fails [of _ w]
  by (simp add: optimize_beam_scan [OF Concrete] scan_None_iff)



section \<open>Monotonicity in the load\<close>

text \<open>
  A load of 84 kN/m on the same beam fails the test at 0.20 m, where the stress is
  5.25 MPa, and passes it at 0.21 m.
\<close>

lemma depths_Cons2:
  "np_arange 0.2 1.0 0.01 =
     0.2 # 0.21 # map (\<lambda>i. (20 + real i) / 100) [Suc (Suc 0) ..< 80]"
proof -
  have a: "[0 ..< 80::nat] = 0 # [Suc 0 ..< 80]" by (rule upt_conv_Cons) simp
  have b: "[Suc 0 ..< 80::nat] = Suc 0 # [Suc (Suc 0) ..< 80]" by (rule upt_conv_Cons) simp
  show ?thesis unfolding depths_eq a b by simp
qed

lemma scan_skip:
  "\<not> passes w m a d \<Longrightarrow> scan s w m a c (d # ds) = scan s w m a c ds"
  by (simp add: passes_def Let_def)

lemma run_medium:
  "optimize_beam 1 84000 ''Concrete'' 0.3 =
     Inr (Some \<lparr>depth = 0.21, stress = Fin 4761904.76, cost = 315,
                safety_factor = Fin 1.05\<rparr>)"
proof -
  have m: "calculate_bending_moment 84000 1 = 10500"
    by (simp add: calculate_bending_moment_def)
  have n: "\<not> passes 0.3 10500 5000000 0.2"
    by (simp add: passes_def calculate_stress_def calculate_section_modulus_def
        power2_eq_square)
  have p: "passes 0.3 10500 5000000 0.21"
    by (simp add: passes_def calculate_stress_def calculate_section_modulus_def
        power2_eq_square)
  have s: "solution_at 1 0.3 10500 5000000 5000 0.21 =
      \<lparr>depth = 0.21, stress = Fin 4761904.76, cost = 315, safety_factor = Fin 1.05\<rparr>"
    by (simp add: solution_at_def solution_def calculate_stress_def
        calculate_section_modulus_def power2_eq_square round_py_def rint_def Let_def)
  show ?thesis
    unfolding optimize_beam_scan [OF Concrete] depths_Cons2 m
    by (simp only: scan_skip [OF n] scan_first [OF p] s material_props.select_convs)
qed

text \<open>
  C6. For a positive span, a positive width and a material of the catalogue, and loads
  \<open>w1 \<le> w2\<close>: when the lighter load has no solution, neither has the heavier one, and
  when both have one, the depth returned for the heavier load is at least the depth
  returned for the lighter one.
\<close>

theorem optimize_beam_monotone_in_load:
  assumes "0 < span'" and "0 < width" and "MATERIALS material = Some props"
    and "w1 \<le> w2"
    and "optimize_beam span' w1 material width = Inr r1"
    and "optimize_beam span' w2 material width = Inr r2"
  shows "(r1 = None \<longrightarrow> r2 = None) \<and>
         (\<forall>d1 d2. r1 = Some d1 \<longrightarrow> r2 = Some d2 \<longrightarrow> depth d1 \<le> depth d2)"
proof -
  let ?a = "allowable_stress props" and ?c = "cost_per_m3 props"
  let ?m1 = "calculate_bending_moment w1 span'" and ?m2 = "calculate_bending_moment w2 span'"
  let ?ds = "np_arange 0.2 1.0 0.01"
  have s1: "scan span' width ?m1 ?a ?c ?ds = r1"
    using assms(5) by (simp add: optimize_beam_scan [OF assms(3)])
  have s2: "scan span' width ?m2 ?a ?c ?ds = r2"
    using assms(6) by (simp add: optimize_beam_scan [OF assms(3)])
  have m12: "?m1 \<le> ?m2" using assms(4) by (rule moment_mono)
  have anti: "passes width ?m1 ?a d" if "d \<in> set ?ds" "passes width ?m2 ?a d" for d
  proof -
    from depths_bounds [OF that(1)] have "0.2 \<le> d" by simp
    with assms(2) show ?thesis using m12 that(2) by (rule passes_antimono)
  qed
  have none: "r2 = None" if "r1 = None"
  proof -
    from that s1 have "\<forall>d\<in>set ?ds. \<not> passes width ?m1 ?a d" by (simp add: scan_None_iff)
    with anti have "\<forall>d\<in>set ?ds. \<not> passes width ?m2 ?a d" by blast
    then have "scan span' width ?m2 ?a ?c ?ds = None" by (simp only: scan_None_iff)
    with s2 show ?thesis by simp
  qed
  have some: "depth d1 \<le> depth d2" if "r1 = Some d1" "r2 = Some d2" for d1 d2
  proof -
    from that(1) s1 have "scan span' width ?m1 ?a ?c ?ds = Some d1" by simp
    from scan_Some_least [OF depths_sorted this] obtain c1 where
      c1: "d1 = solution_at span' width ?m1 ?a ?c c1"
          "\<forall>d'\<in>set ?ds. passes width ?m1 ?a d' \<longrightarrow> c1 \<le> d'" by blast
    from that(2) s2 have "scan span' width ?m2 ?a ?c ?ds = Some d2" by simp
    from scan_Some_least [OF depths_sorted this] obtain c2 where
      c2: "c2 \<in> set ?ds" "passes width ?m2 ?a c2"
          "d2 = solution_at span' width ?m2 ?a ?c c2" by blast
    from anti [OF c2(1,2)] c1(2) c2(1) have "c1 \<le> c2" by blast
    then have "round_py c1 3 \<le> round_py c2 3" by (rule round_py_mono)
    then show ?thesis by (simp only: c1(1) c2(3) depth_solution_at)
  qed
  from none some show ?thesis by blast
qed

theorem optimize_beam_monotone_in_load_witness:
  "0 < (1::real) \<and> 0 < (0.3::real) \<and>
   MATERIALS ''Concrete'' = Some \<lparr>allowable_stress = 5000000, cost_per_m3 = 5000\<rparr> \<and>
   (8::real) \<le> 84000 \<and>
   optimize_beam 1 8 ''Concrete'' 0.3 =
     Inr (Some \<lparr>depth = 0.2, stress = Fin 500, cost = 300, safety_factor = Fin 10000\<rparr>) \<and>
   optimize_beam 1 84000 ''Concrete'' 0.3 =
     Inr (Some \<lparr>depth = 0.21, stress = Fin 4761904.76, cost = 315,
                safety_factor = Fin 1.05\<rparr>) \<and>
   depth \<lparr>depth = 0.2, stress = Fin 500, cost = 300, safety_factor = Fin 10000\<rparr>
     \<le> depth \<lparr>depth = 0.21, stress = Fin 4761904.76, cost = 315,
                 safety_factor = Fin 1.05\<rparr>"
proof -
  have s: "0 < (1::real)" and w: "0 < (0.3::real)" and l: "(8::real) \<le> 84000"
    by simp_all
  from optimize_beam_monotone_in_load [OF s w Concrete l run_light run_medium]
  have "depth \<lparr>depth = 0.2, stress = Fin 500, cost = 300, safety_factor = Fin 10000\<rparr>
     \<le> depth \<lparr>depth = 0.21, stress = Fin 4761904.76, cost = 315,
                 safety_factor = Fin 1.05\<rparr>"
    by blast
  then show ?thesis by (intro conjI s w Concrete l run_light run_medium)
qed

section \<open>The first feasible depth\<close>



section \<open>The signs of the fields of a solution\<close>





section \<open>Degenerate geometry\<close>







section \<open>Recalibration\<close>

text \<open>
  C4, as stated, fails: the observed load is not part of the returned value. Two runs
  whose draws differ observe the loads 8000000000 and 8800000000 and return the same
  pair.
\<close>

theorem recalibrate_design_drops_load_counterexample:
  "snd (recalibrate_design 0 1 8000000000 ''Concrete'' 0.3) = Inr (None, None) \<and>
   snd (recalibrate_design (1 / 10) 1 8000000000 ''Concrete'' 0.3) = Inr (None, None) \<and>
   simulate_sensor_load 0 8000000000 = 8000000000 \<and>
   simulate_sensor_load (1 / 10) 8000000000 = 8800000000"
proof -
  have a: "simulate_sensor_load 0 8000000000 = 8000000000"
    by (simp add: simulate_sensor_load_def round_py_def rint_def Let_def)
  have b: "simulate_sensor_load (1 / 10) 8000000000 = 8800000000"
    by (simp add: simulate_sensor_load_def round_py_def rint_def Let_def)
  have r0: "optimize_beam 1 8000000000 ''Concrete'' 0.3 = Inr None"
    by (rule run_heavy) simp
  have r1: "optimize_beam 1 8800000000 ''Concrete'' 0.3 = Inr None"
    by (rule run_heavy) simp
  show ?thesis
    by (simp add: recalibrate_design_def a b r0 r1)
qed

text \<open>
  C4, amended. When the material is in the catalogue, \<open>recalibrate_design\<close> optimises
  for the expected load, then samples the observed load, then optimises for the observed
  load, as the order of its output shows, and returns the pair of the two results; the
  observed load is printed and is not returned.
\<close>

theorem recalibrate_design_sequence:
  assumes "optimize_beam span' expected_load material width = Inr initial_design"
    and "optimize_beam span' (simulate_sensor_load variation expected_load) material width
           = Inr updated_design"
  shows "recalibrate_design variation span' expected_load material width =
           ([[Str (CHR 0x0A # ''--- Initial Design ---'')],
             [Des initial_design],
             [Str (CHR 0x0A # ''Sensor detected load:''),
              Num (simulate_sensor_load variation expected_load), Str ''N/m''],
             [Str (CHR 0x0A # ''--- Recalibrated Design ---'')],
             [Des updated_design]],
            Inr (initial_design, updated_design))"
  using assms by (simp add: recalibrate_design_def)

theorem recalibrate_design_sequence_witness:
  "optimize_beam 1 8000000000 ''Concrete'' 0.3 = Inr None \<and>
   optimize_beam 1 (simulate_sensor_load (1 / 10) 8000000000) ''Concrete'' 0.3 = Inr None \<and>
   recalibrate_design (1 / 10) 1 8000000000 ''Concrete'' 0.3 =
     ([[Str (CHR 0x0A # ''--- Initial Design ---'')],
       [Des None],
       [Str (CHR 0x0A # ''Sensor detected load:''), Num 8800000000, Str ''N/m''],
       [Str (CHR 0x0A # ''--- Recalibrated Design ---'')],
       [Des None]],
      Inr (None, None))"
proof -
  have b: "simulate_sensor_load (1 / 10) 8000000000 = 8800000000"
    by (simp add: simulate_sensor_load_def round_py_def rint_def Let_def)
  have r0: "optimize_beam 1 8000000000 ''Concrete'' 0.3 = Inr None"
    by (rule run_heavy) simp
  have r1: "optimize_beam 1 (simulate_sensor_load (1 / 10) 8000000000) ''Concrete'' 0.3
              = Inr None"
    unfolding b by (rule run_heavy) simp
  from recalibrate_design_sequence [OF r0 r1] r0 r1 show ?thesis
    by (simp only: b simp_thms)
qed

end
